theory Spec2Isabelle
  imports Main "HOL-Library.AList"
begin

section \<open>The CycloneDDS Conan recipe (cyclonedds/all/conanfile.py)\<close>

text \<open>
  The recipe is one Python class, \<open>CycloneDDSConan\<close>, whose methods Conan calls in turn on
  one recipe object. Each method is embedded as a function on the state of that object;
  a method that can raise returns the exception as a value together with the state the
  object has at that point, since Python keeps every mutation made before the raise.
\<close>

subsection \<open>Exceptions\<close>

datatype error =
    NameError string
  | AttributeError string
  | ConanException string
  | ConanInvalidConfiguration string

subsection \<open>Names bound in the module and in the class\<close>

text \<open>
  The names the module binds at top level: its imports (lines 1 to 18), the assignment
  of line 20 and the class statement of line 22, and the names every module has.
\<close>

definition module_globals :: "string list" where
  "module_globals =
     [''ConanFile'', ''check_min_cppstd'',
      ''CMakeToolchain'', ''CMakeDeps'', ''CMake'', ''cmake_layout'',
      ''get'', ''apply_conandata_patches'', ''copy'', ''export_conandata_patches'',
      ''rmdir'', ''rm'',
      ''Version'', ''os'',
      ''required_conan_version'', ''CycloneDDSConan'',
      ''__name__'', ''__doc__'', ''__package__'', ''__loader__'', ''__spec__'',
      ''__file__'', ''__cached__'', ''__builtins__'']"

text \<open>The names of Python's \<open>builtins\<close> module (CPython 3.11), searched after the globals.\<close>

definition python_builtins :: "string list" where
  "python_builtins =
     [''ArithmeticError'', ''AssertionError'', ''AttributeError'', ''BaseException'',
      ''BaseExceptionGroup'', ''BlockingIOError'', ''BrokenPipeError'', ''BufferError'',
      ''BytesWarning'', ''ChildProcessError'', ''ConnectionAbortedError'', ''ConnectionError'',
      ''ConnectionRefusedError'', ''ConnectionResetError'', ''DeprecationWarning'', ''EOFError'',
      ''Ellipsis'', ''EncodingWarning'', ''EnvironmentError'', ''Exception'', ''ExceptionGroup'',
      ''False'', ''FileExistsError'', ''FileNotFoundError'', ''FloatingPointError'',
      ''FutureWarning'', ''GeneratorExit'', ''IOError'', ''ImportError'', ''ImportWarning'',
      ''IndentationError'', ''IndexError'', ''InterruptedError'', ''IsADirectoryError'',
      ''KeyError'', ''KeyboardInterrupt'', ''LookupError'', ''MemoryError'',
      ''ModuleNotFoundError'', ''NameError'', ''None'', ''NotADirectoryError'',
      ''NotImplemented'', ''NotImplementedError'', ''OSError'', ''OverflowError'',
      ''PendingDeprecationWarning'', ''PermissionError'', ''ProcessLookupError'',
      ''RecursionError'', ''ReferenceError'', ''ResourceWarning'', ''RuntimeError'',
      ''RuntimeWarning'', ''StopAsyncIteration'', ''StopIteration'', ''SyntaxError'',
      ''SyntaxWarning'', ''SystemError'', ''SystemExit'', ''TabError'', ''TimeoutError'',
      ''True'', ''TypeError'', ''UnboundLocalError'', ''UnicodeDecodeError'',
      ''UnicodeEncodeError'', ''UnicodeError'', ''UnicodeTranslateError'', ''UnicodeWarning'',
      ''UserWarning'', ''ValueError'', ''Warning'', ''ZeroDivisionError'',
      ''__build_class__'', ''__debug__'', ''__doc__'', ''__import__'', ''__loader__'',
      ''__name__'', ''__package__'', ''__spec__'',
      ''abs'', ''aiter'', ''all'', ''anext'', ''any'', ''ascii'', ''bin'', ''bool'',
      ''breakpoint'', ''bytearray'', ''bytes'', ''callable'', ''chr'', ''classmethod'',
      ''compile'', ''complex'', ''copyright'', ''credits'', ''delattr'', ''dict'', ''dir'',
      ''divmod'', ''enumerate'', ''eval'', ''exec'', ''exit'', ''filter'', ''float'',
      ''format'', ''frozenset'', ''getattr'', ''globals'', ''hasattr'', ''hash'', ''help'',
      ''hex'', ''id'', ''input'', ''int'', ''isinstance'', ''issubclass'', ''iter'', ''len'',
      ''license'', ''list'', ''locals'', ''map'', ''max'', ''memoryview'', ''min'', ''next'',
      ''object'', ''oct'', ''open'', ''ord'', ''pow'', ''print'', ''property'', ''quit'',
      ''range'', ''repr'', ''reversed'', ''round'', ''set'', ''setattr'', ''slice'',
      ''sorted'', ''staticmethod'', ''str'', ''sum'', ''super'', ''tuple'', ''type'',
      ''vars'', ''zip'']"

text \<open>
  A name used in a method body that is not a local is looked up in the module's globals
  and then in the builtins; a name found in neither raises \<open>NameError\<close>.
\<close>

definition name_defined :: "string \<Rightarrow> bool" where
  "name_defined n = (n \<in> set module_globals \<or> n \<in> set python_builtins)"

text \<open>
  The statement \<open>raise ConanInvalidConfiguration(msg)\<close>: Python evaluates the name
  before the argument and before the raise, so an unbound name is what is raised.
\<close>

definition raise_ConanInvalidConfiguration :: "string \<Rightarrow> error" where
  "raise_ConanInvalidConfiguration msg =
     (if name_defined ''ConanInvalidConfiguration'' then ConanInvalidConfiguration msg
      else NameError ''ConanInvalidConfiguration'')"

text \<open>
  The attributes the class body defines (lines 23 to 194), and the attributes of the base
  class \<open>ConanFile\<close> (Conan's, not the repository's) that the recipe reads or calls.
\<close>

definition class_attributes :: "string list" where
  "class_attributes =
     [''name'', ''license'', ''url'', ''homepage'', ''description'', ''topics'',
      ''package_type'', ''settings'', ''options'', ''default_options'', ''short_paths'',
      ''_min_cppstd'', ''_compilers_minimum_version'',
      ''export_sources'', ''config_options'', ''configure'', ''layout'', ''requirements'',
      ''validate'', ''build_requirements'', ''source'', ''generate'', ''build'',
      ''package'', ''package_info'']"

definition ConanFile_attributes :: "string list" where
  "ConanFile_attributes =
     [''requires'', ''tool_requires'', ''conan_data'', ''version'',
      ''source_folder'', ''package_folder'',
      ''cpp_info'', ''buildenv_info'', ''runenv_info'']"

definition has_attribute :: "string \<Rightarrow> bool" where
  "has_attribute n = (n \<in> set class_attributes \<or> n \<in> set ConanFile_attributes)"

subsection \<open>Settings, options and the recipe object\<close>

record Compiler =
  compiler_name :: string
  version :: string
  cppstd :: "string option"
  libcxx :: "string option"

record Settings =
  os :: string
  arch :: string
  compiler :: Compiler
  build_type :: string

text \<open>
  The six declared options (lines 36 to 43), each over \<open>[True, False]\<close>. Only \<open>fPIC\<close> is
  ever deleted, so only it can be absent (\<open>None\<close>).
\<close>

record Options =
  shared :: bool
  fPIC :: "bool option"
  with_ssl :: bool
  with_shm :: bool
  enable_security :: bool
  enable_discovery :: bool

definition default_options :: Options where
  "default_options =
     \<lparr>shared = False, fPIC = Some True, with_ssl = False, with_shm = False,
      enable_security = False, enable_discovery = True\<rparr>"

text \<open>A path is the list of its components; \<open>os.path.join\<close> appends components.\<close>

type_synonym path = "string list"

definition os_path_join :: "path \<Rightarrow> string list \<Rightarrow> path" where
  "os_path_join base parts = base @ parts"

datatype prop_value = Str string | Paths "path list"

record Component =
  properties :: "string \<rightharpoonup> prop_value"
  libs :: "string list"
  requires :: "string list"
  system_libs :: "string list"

record CppInfo =
  cpp_properties :: "string \<rightharpoonup> prop_value"
  components :: "string \<rightharpoonup> Component"

text \<open>
  Calls into Conan and CMake whose effect is outside the recipe object (the file system,
  the build tool); a method records them in the order it makes them.
\<close>

datatype call =
    CheckMinCppstd string
  | CMakeInstall
  | Copy string path path
  | Rmdir path
  | Rm string path

record conanfile =
  settings :: Settings
  options :: Options
  declared_requires :: "string list"
  cpp_info :: CppInfo
  buildenv_PATH :: "path list"
  runenv_PATH :: "path list"
  source_folder :: path
  package_folder :: path
  calls :: "call list"

type_synonym recipe_method = "conanfile \<Rightarrow> (error + unit) \<times> conanfile"

subsection \<open>Python values: truth, sequence order, decimal strings\<close>

text \<open>The truth value of what \<open>get_safe\<close> returns: \<open>None\<close> and the empty string are false.\<close>

definition truthy :: "string option \<Rightarrow> bool" where
  "truthy v = (case v of None \<Rightarrow> False | Some s \<Rightarrow> s \<noteq> [])"

text \<open>
  Python orders sequences (strings, tuples) by the first position where they differ; a
  proper prefix is smaller.
\<close>

fun lex_lt :: "('a \<Rightarrow> 'a \<Rightarrow> bool) \<Rightarrow> 'a list \<Rightarrow> 'a list \<Rightarrow> bool" where
  "lex_lt lt [] [] = False"
| "lex_lt lt [] (y # ys) = True"
| "lex_lt lt (x # xs) [] = False"
| "lex_lt lt (x # xs) (y # ys) = (if x = y then lex_lt lt xs ys else lt x y)"

definition char_lt :: "char \<Rightarrow> char \<Rightarrow> bool" where
  "char_lt a b = ((of_char a :: nat) < of_char b)"

definition str_lt :: "string \<Rightarrow> string \<Rightarrow> bool" where
  "str_lt = lex_lt char_lt"

definition isdigit :: "char \<Rightarrow> bool" where
  "isdigit ch = (48 \<le> (of_char ch :: nat) \<and> (of_char ch :: nat) \<le> 57)"

definition int_of_digits :: "string \<Rightarrow> nat" where
  "int_of_digits s = foldl (\<lambda>a ch. 10 * a + (of_char ch - 48)) 0 s"

fun str_of_nat :: "nat \<Rightarrow> string" where
  "str_of_nat n =
     (if n < 10 then [char_of (48 + n)]
      else str_of_nat (n div 10) @ [char_of (48 + n mod 10)])"

fun split_on :: "char \<Rightarrow> string \<Rightarrow> string list" where
  "split_on sep [] = [[]]"
| "split_on sep (ch # rest) =
     (if ch = sep then [] # split_on sep rest
      else (case split_on sep rest of
              [] \<Rightarrow> [[ch]]
            | w # ws \<Rightarrow> (ch # w) # ws))"

subsection \<open>Conan's library, as far as the recipe calls it\<close>

text \<open>
  \<open>conan.tools.scm.Version\<close> is Conan's code, not the repository's. It is modelled for
  plain dotted versions (no \<open>-\<close> pre-release and no \<open>+\<close> build suffix), the form of every
  \<open>compiler.version\<close> and of every entry of the recipe's table: the string is split at
  the dots, an item of decimal digits is an integer and any other item stays a string,
  trailing zero items do not count, and versions compare as the tuples of their items.
  Two integers compare as numbers; any other pair compares as strings.
\<close>

datatype VersionItem = IntItem nat | StrItem string

definition VersionItem_of :: "string \<Rightarrow> VersionItem" where
  "VersionItem_of s =
     (if s \<noteq> [] \<and> list_all isdigit s then IntItem (int_of_digits s) else StrItem s)"

definition item_str :: "VersionItem \<Rightarrow> string" where
  "item_str i = (case i of IntItem n \<Rightarrow> str_of_nat n | StrItem s \<Rightarrow> s)"

definition item_lt :: "VersionItem \<Rightarrow> VersionItem \<Rightarrow> bool" where
  "item_lt a b =
     (case (a, b) of
        (IntItem m, IntItem n) \<Rightarrow> m < n
      | _ \<Rightarrow> str_lt (item_str a) (item_str b))"

definition Version :: "string \<Rightarrow> VersionItem list" where
  "Version s =
     rev (dropWhile (\<lambda>i. i = IntItem 0) (rev (map VersionItem_of (split_on CHR ''.'' s))))"

definition Version_lt :: "VersionItem list \<Rightarrow> VersionItem list \<Rightarrow> bool" where
  "Version_lt = lex_lt item_lt"

text \<open>
  \<open>conan.tools.build.check_min_cppstd\<close>, Conan's code as well: it reads
  \<open>compiler.cppstd\<close>, drops \<open>gnu\<close>, prefixes the century and raises Conan's own
  \<open>ConanInvalidConfiguration\<close> (the library imports it) when the setting is absent or
  below the required standard. The call itself is recorded in \<open>calls\<close>.
\<close>

fun replace_gnu :: "string \<Rightarrow> string" where
  "replace_gnu (a # b # c # rest) =
     (if [a, b, c] = ''gnu'' then replace_gnu rest else a # replace_gnu (b # c # rest))"
| "replace_gnu s = s"

definition add_millennium :: "string \<Rightarrow> string" where
  "add_millennium s = (if s = ''98'' then ''19'' @ s else ''20'' @ s)"

definition check_min_cppstd :: "string \<Rightarrow> recipe_method" where
  "check_min_cppstd required c =
     (let c1 = c\<lparr>calls := calls c @ [CheckMinCppstd required]\<rparr> in
      case cppstd (compiler (settings c)) of
        None \<Rightarrow>
          (Inl (ConanInvalidConfiguration
                  ''The compiler.cppstd is not defined for this configuration''), c1)
      | Some current \<Rightarrow>
          if str_lt (add_millennium (replace_gnu current)) (add_millennium required)
          then (Inl (ConanInvalidConfiguration
                       (''Current cppstd ('' @ current
                          @ '') is lower than the required C++ standard (''
                          @ required @ '').'')), c1)
          else (Inr (), c1))"

text \<open>
  \<open>del self.options.fPIC\<close>: Conan's option container raises \<open>ConanException\<close> when the
  option is not there (it offers \<open>rm_safe\<close> for a removal that cannot fail).
\<close>

definition del_options_fPIC :: recipe_method where
  "del_options_fPIC c =
     (case fPIC (options c) of
        None \<Rightarrow> (Inl (ConanException ''option fPIC does not exist''), c)
      | Some v \<Rightarrow> (Inr (), c\<lparr>options := (options c)\<lparr>fPIC := None\<rparr>\<rparr>))"

text \<open>\<open>self.settings.rm_safe(name)\<close> removes a sub-setting of the compiler and never raises.\<close>

definition rm_safe_compiler_libcxx :: "conanfile \<Rightarrow> conanfile" where
  "rm_safe_compiler_libcxx c =
     c\<lparr>settings := (settings c)\<lparr>compiler := (compiler (settings c))\<lparr>libcxx := None\<rparr>\<rparr>\<rparr>"

definition rm_safe_compiler_cppstd :: "conanfile \<Rightarrow> conanfile" where
  "rm_safe_compiler_cppstd c =
     c\<lparr>settings := (settings c)\<lparr>compiler := (compiler (settings c))\<lparr>cppstd := None\<rparr>\<rparr>\<rparr>"

text \<open>
  \<open>self.cpp_info.components[name]\<close> yields the component of that name, a fresh empty one
  when there is none yet.
\<close>

definition empty_component :: Component where
  "empty_component = \<lparr>properties = Map.empty, libs = [], requires = [], system_libs = []\<rparr>"

definition get_component :: "CppInfo \<Rightarrow> string \<Rightarrow> Component" where
  "get_component ci n = (case components ci n of None \<Rightarrow> empty_component | Some k \<Rightarrow> k)"

subsection \<open>The recipe's properties (lines 55 to 67)\<close>

definition min_cppstd :: string where
  "min_cppstd = ''14''"

definition compilers_minimum_version :: "(string \<times> string) list" where
  "compilers_minimum_version =
     [(''gcc'', ''7''),
      (''clang'', ''7''),
      (''apple-clang'', ''10''),
      (''msvc'', ''192''),
      (''Visual Studio'', ''16'')]"

text \<open>
  \<open>self._has_idlc()\<close> (lines 122 and 181): neither the class body nor \<open>ConanFile\<close> has an
  attribute of that name, so the attribute lookup raises before anything is called.
\<close>

definition call_has_idlc :: "conanfile \<Rightarrow> error + bool" where
  "call_has_idlc c = Inl (AttributeError ''_has_idlc'')"

subsection \<open>The recipe's methods\<close>

text \<open>Lines 73 to 76.\<close>

definition config_options :: recipe_method where
  "config_options c =
     (if os (settings c) = ''Windows'' then del_options_fPIC c else (Inr (), c))"

text \<open>Lines 78 to 84.\<close>

definition configure :: recipe_method where
  "configure c =
     (case (if shared (options c) then del_options_fPIC c else (Inr (), c)) of
        (Inl e, c1) \<Rightarrow> (Inl e, c1)
      | (Inr u, c1) \<Rightarrow> (Inr (), rm_safe_compiler_cppstd (rm_safe_compiler_libcxx c1)))"

text \<open>Lines 89 to 93: \<open>self.requires\<close> adds a reference to the declared requirements.\<close>

definition requirements :: recipe_method where
  "requirements c =
     (let c1 = (if with_shm (options c)
                then c\<lparr>declared_requires := declared_requires c @ [''iceoryx/2.0.5'']\<rparr>
                else c);
          c2 = (if with_ssl (options c1)
                then c1\<lparr>declared_requires := declared_requires c1 @ [''openssl/[>=1.1 <4]'']\<rparr>
                else c1)
      in (Inr (), c2))"

text \<open>Lines 95 to 110.\<close>

definition validate :: recipe_method where
  "validate c =
     (if enable_security (options c) \<and> \<not> shared (options c)
      then (Inl (raise_ConanInvalidConfiguration
                   ''CycloneDDS: security only supported in shared builds''), c)
      else
        (case (if truthy (cppstd (compiler (settings c)))
               then check_min_cppstd min_cppstd c else (Inr (), c)) of
           (Inl e, c1) \<Rightarrow> (Inl e, c1)
         | (Inr u, c1) \<Rightarrow>
             (case map_of compilers_minimum_version (compiler_name (compiler (settings c1))) of
                None \<Rightarrow> (Inr (), c1)
              | Some min_version \<Rightarrow>
                  if min_version \<noteq> []
                     \<and> Version_lt (Version (version (compiler (settings c1))))
                                    (Version min_version)
                  then (Inl (raise_ConanInvalidConfiguration
                               (''CycloneDDS requires at least C++'' @ min_cppstd @ ''; ''
                                  @ compiler_name (compiler (settings c1)) @ '' ''
                                  @ version (compiler (settings c1)) @ '' is too old.'')), c1)
                  else (Inr (), c1))))"

text \<open>
  Lines 119 to 135. \<open>tc.variables\<close> and \<open>tc.cache_variables\<close> are dictionaries, kept in
  insertion order; the result is the toolchain that \<open>tc.generate()\<close> writes out.
\<close>

record CMakeToolchain =
  variables :: "(string \<times> bool) list"
  cache_variables :: "(string \<times> bool) list"

definition generate :: "conanfile \<Rightarrow> error + CMakeToolchain" where
  "generate c =
     (let tc = \<lparr>variables = [], cache_variables = []\<rparr> in
      case call_has_idlc c of
        Inl e \<Rightarrow> Inl e
      | Inr has_idlc \<Rightarrow>
          (let vs = AList.update ''BUILD_IDLC'' has_idlc (variables tc);
               vs = AList.update ''BUILD_IDLC_TESTING'' False vs;
               vs = AList.update ''BUILD_DDSPERF'' False vs;
               vs = AList.update ''ENABLE_SSL'' (with_ssl (options c)) vs;
               vs = AList.update ''ENABLE_SHM'' (with_shm (options c)) vs;
               vs = AList.update ''ENABLE_SECURITY'' (enable_security (options c)) vs;
               vs = AList.update ''ENABLE_TYPE_DISCOVERY'' (enable_discovery (options c)) vs;
               vs = AList.update ''ENABLE_TOPIC_DISCOVERY'' (enable_discovery (options c)) vs;
               cvs = AList.update ''ENABLE_LTO'' False (cache_variables tc)
           in Inr (tc\<lparr>variables := vs, cache_variables := cvs\<rparr>)))"

text \<open>Lines 142 to 158.\<close>

definition package :: recipe_method where
  "package c =
     (let pf = package_folder c;
          always =
            [CMakeInstall,
             Copy ''LICENSE'' (source_folder c) (os_path_join pf [''licenses'']),
             Rmdir (os_path_join pf [''share'']),
             Rmdir (os_path_join pf [''lib'', ''pkgconfig'']),
             Rm ''*.cmake'' (os_path_join pf [''lib'', ''cmake'', ''CycloneDDS''])];
          windows =
            (if os (settings c) = ''Windows''
             then map (\<lambda>pattern. Rm pattern (os_path_join pf [''bin'']))
                      [''*.pdb'', ''concrt*.dll'', ''msvcp*.dll'', ''vcruntime*.dll'']
             else [])
      in (Inr (), c\<lparr>calls := calls c @ always @ windows\<rparr>))"

text \<open>Lines 160 to 194.\<close>

definition package_info :: recipe_method where
  "package_info c =
     (let ci = cpp_info c;
          ci = ci\<lparr>cpp_properties := (cpp_properties ci)(''pkg_config_name'' \<mapsto> Str ''CycloneDDS'')\<rparr>;
          ci = ci\<lparr>cpp_properties := (cpp_properties ci)(''cmake_file_name'' \<mapsto> Str ''CycloneDDS'')\<rparr>;
          ddsc = get_component ci ''ddsc'';
          ddsc = ddsc\<lparr>properties :=
                        (properties ddsc)(''cmake_target_name'' \<mapsto> Str ''CycloneDDS::ddsc'')\<rparr>;
          ddsc = ddsc\<lparr>libs := [''ddsc'']\<rparr>;
          ddsc = (if with_shm (options c)
                  then ddsc\<lparr>requires := requires ddsc @ [''iceoryx::iceoryx_binding_c'']\<rparr>
                  else ddsc);
          ddsc = (if with_ssl (options c)
                  then ddsc\<lparr>requires := requires ddsc @ [''openssl::openssl'']\<rparr>
                  else ddsc);
          ddsc = (if os (settings c) \<in> set [''Linux'', ''FreeBSD'']
                  then ddsc\<lparr>system_libs := [''dl'', ''pthread'']\<rparr>
                  else if os (settings c) = ''Windows''
                  then ddsc\<lparr>system_libs := [''ws2_32'', ''dbghelp'', ''bcrypt'', ''iphlpapi'']\<rparr>
                  else ddsc);
          c1 = c\<lparr>cpp_info := ci\<lparr>components := (components ci)(''ddsc'' \<mapsto> ddsc)\<rparr>\<rparr>
      in case call_has_idlc c1 of
           Inl e \<Rightarrow> (Inl e, c1)
         | Inr has_idlc \<Rightarrow>
             if has_idlc
             then
               (let ci = cpp_info c1;
                    idl = get_component ci ''idl'';
                    idl = idl\<lparr>properties :=
                                (properties idl)(''cmake_target_name'' \<mapsto> Str ''CycloneDDS::idl'')\<rparr>;
                    idl = idl\<lparr>libs := [''cycloneddsidl'']\<rparr>;
                    idl = idl\<lparr>properties :=
                                (properties idl)(''cmake_build_modules'' \<mapsto>
                                   Paths [os_path_join [] [''lib'', ''cmake'', ''CycloneDDS'',
                                                            ''CycloneDDS_idlc.cmake''],
                                          os_path_join [] [''lib'', ''cmake'', ''CycloneDDS'',
                                                            ''idlc'', ''Generate.cmake'']])\<rparr>;
                    bin_path = os_path_join (package_folder c1) [''bin''];
                    c2 = c1\<lparr>cpp_info := ci\<lparr>components := (components ci)(''idl'' \<mapsto> idl)\<rparr>\<rparr>;
                    c2 = c2\<lparr>buildenv_PATH := bin_path # buildenv_PATH c2\<rparr>;
                    c2 = c2\<lparr>runenv_PATH := bin_path # runenv_PATH c2\<rparr>
                in (Inr (), c2))
             else (Inr (), c1))"

subsection \<open>Recipe objects and predicates for stating the properties\<close>

text \<open>
  A recipe object as Conan hands it to the first method: the given settings and option
  values, nothing declared or recorded yet.
\<close>

definition new_conanfile :: "Settings \<Rightarrow> Options \<Rightarrow> conanfile" where
  "new_conanfile st opts =
     \<lparr>settings = st, options = opts, declared_requires = [],
      cpp_info = \<lparr>cpp_properties = Map.empty, components = Map.empty\<rparr>,
      buildenv_PATH = [], runenv_PATH = [],
      source_folder = [''source''], package_folder = [''package''], calls = []\<rparr>"

definition mk_settings :: "string \<Rightarrow> string \<Rightarrow> string \<Rightarrow> string option \<Rightarrow> Settings" where
  "mk_settings the_os family ver std =
     \<lparr>os = the_os, arch = ''x86_64'',
      compiler = \<lparr>compiler_name = family, version = ver, cppstd = std, libcxx = None\<rparr>,
      build_type = ''Release''\<rparr>"

text \<open>
  The version check of lines 105 and 106 in the words of the specification: the compiler
  family has an entry in the table and the version is below that entry.
\<close>

definition below_minimum :: "conanfile \<Rightarrow> bool" where
  "below_minimum c =
     (case map_of compilers_minimum_version (compiler_name (compiler (settings c))) of
        None \<Rightarrow> False
      | Some m \<Rightarrow> Version_lt (Version (version (compiler (settings c)))) (Version m))"

section \<open>Properties\<close>

subsection \<open>Name and attribute lookup\<close>

lemma ConanInvalidConfiguration_unbound: "\<not> name_defined ''ConanInvalidConfiguration''"
  by (simp add: name_defined_def module_globals_def python_builtins_def)

lemma raise_ConanInvalidConfiguration_NameError:
  "raise_ConanInvalidConfiguration msg = NameError ''ConanInvalidConfiguration''"
  by (simp add: raise_ConanInvalidConfiguration_def ConanInvalidConfiguration_unbound)

lemma has_idlc_not_an_attribute: "\<not> has_attribute ''_has_idlc''"
  by (simp add: has_attribute_def class_attributes_def ConanFile_attributes_def)

lemma check_min_cppstd_settings:
  "settings (snd (check_min_cppstd r c)) = settings c"
  by (simp add: check_min_cppstd_def Let_def split: option.splits)

lemma check_min_cppstd_calls:
  "calls (snd (check_min_cppstd r c)) = calls c @ [CheckMinCppstd r]"
  by (simp add: check_min_cppstd_def Let_def split: option.splits)

lemma check_min_cppstd_error:
  "fst (check_min_cppstd r c) = Inl e \<Longrightarrow> \<exists>m. e = ConanInvalidConfiguration m"
  by (auto simp add: check_min_cppstd_def Let_def split: option.splits if_splits)

lemma minimum_version_nonempty:
  "map_of compilers_minimum_version n = Some m \<Longrightarrow> m \<noteq> []"
  by (auto simp add: compilers_minimum_version_def split: if_splits)

lemma below_minimum_cong:
  "settings c1 = settings c \<Longrightarrow> below_minimum c1 = below_minimum c"
  by (simp add: below_minimum_def split: option.splits)

lemma validate_no_cppstd:
  assumes "\<not> truthy (cppstd (compiler (settings c)))"
  shows "validate c =
     (if (enable_security (options c) \<and> \<not> shared (options c)) \<or> below_minimum c
      then (Inl (NameError ''ConanInvalidConfiguration''), c) else (Inr (), c))"
  using assms
  by (auto simp add: validate_def below_minimum_def raise_ConanInvalidConfiguration_NameError
      dest: minimum_version_nonempty split: option.splits)

lemma validate_cppstd:
  assumes "truthy (cppstd (compiler (settings c)))"
    and "\<not> (enable_security (options c) \<and> \<not> shared (options c))"
  shows "validate c =
     (case check_min_cppstd min_cppstd c of
        (Inl e, c1) \<Rightarrow> (Inl e, c1)
      | (Inr u, c1) \<Rightarrow>
          if below_minimum c then (Inl (NameError ''ConanInvalidConfiguration''), c1)
          else (Inr (), c1))"
proof -
  obtain r c1 where rc: "check_min_cppstd min_cppstd c = (r, c1)"
    by (cases "check_min_cppstd min_cppstd c")
  then have st: "settings c1 = settings c"
    using check_min_cppstd_settings [of min_cppstd c] by simp
  show ?thesis
    using assms rc st
    by (auto simp add: validate_def below_minimum_def raise_ConanInvalidConfiguration_NameError
        dest: minimum_version_nonempty split: option.splits sum.splits)
qed

subsection \<open>\<open>validate\<close>\<close>

text \<open>
  C1. The specification: \<open>validate\<close> fails with \<open>IncompatibleOptions\<close>, a configuration
  error, exactly when \<open>enable_security\<close> is true and \<open>shared\<close> is false. The recipe attempts
  this at lines 97 to 100 with \<open>raise ConanInvalidConfiguration(...)\<close>, but the name is
  never imported: with \<open>enable_security=True\<close> and \<open>shared=False\<close> what leaves \<open>validate\<close>
  is \<open>NameError\<close>, not the configuration error. The same request with \<open>shared=True\<close> (and an
  adequate compiler) passes.
\<close>

theorem validate_security_static_at_input:
  "fst (validate (new_conanfile (mk_settings ''Linux'' ''gcc'' ''11'' None)
                    (default_options\<lparr>enable_security := True\<rparr>)))
     = Inl (NameError ''ConanInvalidConfiguration'')
   \<and> fst (validate (new_conanfile (mk_settings ''Linux'' ''gcc'' ''11'' None)
                    (default_options\<lparr>enable_security := True, shared := True\<rparr>)))
     = Inr ()"
  by code_simp

text \<open>
  C2, as stated: the compiler-minimum-version check is skipped whenever no \<open>cppstd\<close>
  override is configured. It is not: with no override, gcc 6 fails at the version branch
  of lines 106 to 110 (through the unbound name, see C9) and gcc 7 passes, so the check
  ran.
\<close>

theorem version_check_without_cppstd_counterexample:
  "cppstd (compiler (settings (new_conanfile (mk_settings ''Linux'' ''gcc'' ''6'' None)
                                 default_options))) = None
   \<and> below_minimum (new_conanfile (mk_settings ''Linux'' ''gcc'' ''6'' None) default_options)
   \<and> fst (validate (new_conanfile (mk_settings ''Linux'' ''gcc'' ''6'' None) default_options))
       = Inl (NameError ''ConanInvalidConfiguration'')
   \<and> fst (validate (new_conanfile (mk_settings ''Linux'' ''gcc'' ''7'' None) default_options))
       = Inr ()"
  by code_simp

text \<open>
  C2, amended: when no \<open>cppstd\<close> override is configured, only the language-standard check
  (\<open>check_min_cppstd\<close>) is skipped, and the compiler-minimum-version check still runs:
  \<open>validate\<close> then fails exactly when \<open>enable_security\<close> is true with \<open>shared\<close> false, or the
  compiler family has an entry in the minimum-version table and the version is below it;
  and it calls nothing of the library.
\<close>

theorem validate_without_cppstd_override:
  assumes "\<not> truthy (cppstd (compiler (settings c)))"
  shows "isl (fst (validate c))
           = ((enable_security (options c) \<and> \<not> shared (options c)) \<or> below_minimum c)
         \<and> calls (snd (validate c)) = calls c"
  using assms by (simp add: validate_no_cppstd)

theorem validate_without_cppstd_override_witness:
  "\<not> truthy (cppstd (compiler (settings
        (new_conanfile (mk_settings ''Linux'' ''clang'' ''6.0'' None) default_options))))
   \<and> isl (fst (validate
        (new_conanfile (mk_settings ''Linux'' ''clang'' ''6.0'' None) default_options)))
   \<and> calls (snd (validate
        (new_conanfile (mk_settings ''Linux'' ''clang'' ''6.0'' None) default_options))) = []"
proof -
  let ?c = "new_conanfile (mk_settings ''Linux'' ''clang'' ''6.0'' None) default_options"
  have h: "\<not> truthy (cppstd (compiler (settings ?c)))" by code_simp
  have b: "below_minimum ?c" by code_simp
  have e: "calls ?c = []" by code_simp
  show ?thesis
    using h b e validate_without_cppstd_override [OF h] by simp
qed

text \<open>
  C3. The specification: for a compiler family of the table, a version below the entry
  makes \<open>validate\<close> raise \<open>ToolchainTooOld\<close>, a version at or above it does not, and a family
  outside the table never does. The recipe attempts the raise at lines 106 to 110 with
  the same unimported name: apple-clang 9.1 (entry 10) ends in \<open>NameError\<close>, not in the
  configuration error. apple-clang 10 passes, and so does a family the table lacks.
\<close>

theorem validate_old_compiler_at_input:
  "fst (validate (new_conanfile (mk_settings ''Macos'' ''apple-clang'' ''9.1'' None)
                    default_options))
     = Inl (NameError ''ConanInvalidConfiguration'')
   \<and> fst (validate (new_conanfile (mk_settings ''Macos'' ''apple-clang'' ''10'' None)
                    default_options))
     = Inr ()
   \<and> fst (validate (new_conanfile (mk_settings ''Linux'' ''intel-cc'' ''2021.1'' None)
                    default_options))
     = Inr ()"
  by code_simp

text \<open>
  C9. Whenever one of the two error branches of \<open>validate\<close> fires (security with static
  linking at line 97; or, the language-standard check having passed or been skipped, a
  compiler below its minimum at line 106), what \<open>validate\<close> raises is \<open>NameError\<close> for
  the name \<open>ConanInvalidConfiguration\<close>, which the file never imports, and so never the
  configuration error.
\<close>

theorem validate_error_branches_raise_NameError:
  assumes "(enable_security (options c) \<and> \<not> shared (options c))
           \<or> ((truthy (cppstd (compiler (settings c)))
                  \<longrightarrow> fst (check_min_cppstd min_cppstd c) = Inr ())
               \<and> below_minimum c)"
  shows "fst (validate c) = Inl (NameError ''ConanInvalidConfiguration'')
         \<and> (\<forall>msg. fst (validate c) \<noteq> Inl (ConanInvalidConfiguration msg))"
proof -
  have "fst (validate c) = Inl (NameError ''ConanInvalidConfiguration'')"
  proof (cases "enable_security (options c) \<and> \<not> shared (options c)")
    case True
    then show ?thesis
      by (simp add: validate_def raise_ConanInvalidConfiguration_NameError)
  next
    case False
    with assms have ok: "truthy (cppstd (compiler (settings c)))
                  \<longrightarrow> fst (check_min_cppstd min_cppstd c) = Inr ()"
      and low: "below_minimum c" by auto
    show ?thesis
    proof (cases "truthy (cppstd (compiler (settings c)))")
      case True
      with ok have "fst (check_min_cppstd min_cppstd c) = Inr ()" by simp
      with True False low show ?thesis
        by (cases "check_min_cppstd min_cppstd c") (simp add: validate_cppstd)
    next
      case nt: False
      with low show ?thesis by (simp add: validate_no_cppstd)
    qed
  qed
  then show ?thesis by simp
qed

theorem validate_error_branches_raise_NameError_witness:
  "fst (validate (new_conanfile (mk_settings ''Windows'' ''msvc'' ''193'' None)
                    (default_options\<lparr>enable_security := True\<rparr>)))
     = Inl (NameError ''ConanInvalidConfiguration'')
   \<and> fst (validate (new_conanfile (mk_settings ''Windows'' ''msvc'' ''191'' (Some ''17''))
                    default_options))
     = Inl (NameError ''ConanInvalidConfiguration'')"
proof -
  let ?a = "new_conanfile (mk_settings ''Windows'' ''msvc'' ''193'' None)
              (default_options\<lparr>enable_security := True\<rparr>)"
  let ?b = "new_conanfile (mk_settings ''Windows'' ''msvc'' ''191'' (Some ''17''))
              default_options"
  have ha: "enable_security (options ?a) \<and> \<not> shared (options ?a)" by code_simp
  have hb: "(truthy (cppstd (compiler (settings ?b)))
               \<longrightarrow> fst (check_min_cppstd min_cppstd ?b) = Inr ()) \<and> below_minimum ?b"
    by code_simp
  show ?thesis
    using validate_error_branches_raise_NameError [of ?a] ha
      validate_error_branches_raise_NameError [of ?b] hb
    by blast
qed

subsection \<open>\<open>config_options\<close> and \<open>configure\<close>\<close>

lemma configure_returns:
  assumes "fst (configure c) = Inr ()"
  shows "cppstd (compiler (settings (snd (configure c)))) = None"
    and "libcxx (compiler (settings (snd (configure c)))) = None"
    and "calls (snd (configure c)) = calls c"
  using assms
  by (auto simp add: configure_def rm_safe_compiler_cppstd_def rm_safe_compiler_libcxx_def
      del_options_fPIC_def split: if_splits option.splits)

lemma requirements_settings: "settings (snd (requirements c)) = settings c"
  by (simp add: requirements_def Let_def)

lemma requirements_calls: "calls (snd (requirements c)) = calls c"
  by (simp add: requirements_def Let_def)

text \<open>
  With a language standard configured and the security check passed, \<open>validate\<close> does
  call \<open>check_min_cppstd\<close>; the record of calls shows it.
\<close>

lemma validate_cppstd_calls:
  assumes "truthy (cppstd (compiler (settings c)))"
    and "\<not> (enable_security (options c) \<and> \<not> shared (options c))"
  shows "calls (snd (validate c)) = calls c @ [CheckMinCppstd min_cppstd]"
proof -
  obtain r c1 where rc: "check_min_cppstd min_cppstd c = (r, c1)"
    by (cases "check_min_cppstd min_cppstd c")
  then have "calls c1 = calls c @ [CheckMinCppstd min_cppstd]"
    using check_min_cppstd_calls [of min_cppstd c] by simp
  with assms rc show ?thesis
    by (cases r) (simp_all add: validate_cppstd)
qed

text \<open>
  C10. \<open>configure\<close>, when it returns, has removed \<open>compiler.cppstd\<close> (line 84). In every
  run where \<open>validate\<close> follows it, directly or after \<open>requirements\<close>,
  \<open>get_safe("cppstd")\<close> is therefore falsy and \<open>validate\<close> makes no call of
  \<open>check_min_cppstd\<close>: it leaves the record of library calls as it found it.
\<close>

theorem validate_after_configure_never_checks_cppstd:
  assumes "fst (configure c) = Inr ()"
  shows "cppstd (compiler (settings (snd (configure c)))) = None
         \<and> \<not> truthy (cppstd (compiler (settings (snd (configure c)))))
         \<and> calls (snd (validate (snd (configure c)))) = calls (snd (configure c))
         \<and> calls (snd (validate (snd (requirements (snd (configure c))))))
             = calls (snd (requirements (snd (configure c))))"
proof -
  let ?c1 = "snd (configure c)"
  have r: "cppstd (compiler (settings ?c1)) = None"
    by (rule configure_returns(1) [OF assms])
  then have n: "\<not> truthy (cppstd (compiler (settings ?c1)))"
    by (simp add: truthy_def)
  then have a: "calls (snd (validate ?c1)) = calls ?c1"
    by (simp add: validate_no_cppstd)
  have "\<not> truthy (cppstd (compiler (settings (snd (requirements ?c1)))))"
    using n by (simp add: requirements_settings)
  then have b: "calls (snd (validate (snd (requirements ?c1)))) = calls (snd (requirements ?c1))"
    by (simp add: validate_no_cppstd)
  show ?thesis using r n a b by simp
qed

theorem validate_after_configure_never_checks_cppstd_witness:
  "fst (configure (new_conanfile (mk_settings ''Linux'' ''gcc'' ''11'' (Some ''11''))
                     default_options)) = Inr ()
   \<and> calls (snd (validate (new_conanfile (mk_settings ''Linux'' ''gcc'' ''11'' (Some ''11''))
                             default_options))) = [CheckMinCppstd ''14'']
   \<and> calls (snd (validate (snd (configure
                (new_conanfile (mk_settings ''Linux'' ''gcc'' ''11'' (Some ''11''))
                   default_options))))) = []"
proof -
  let ?c = "new_conanfile (mk_settings ''Linux'' ''gcc'' ''11'' (Some ''11'')) default_options"
  have h: "fst (configure ?c) = Inr ()" by code_simp
  have e: "calls (snd (configure ?c)) = []" by code_simp
  have d: "calls (snd (validate ?c)) = [CheckMinCppstd ''14'']" by code_simp
  show ?thesis
    using h d e validate_after_configure_never_checks_cppstd [OF h] by simp
qed

text \<open>
  What \<open>config_options\<close> followed by \<open>configure\<close> does to options that still hold
  \<open>fPIC\<close>: \<open>config_options\<close> returns; \<open>configure\<close> returns unless the platform is
  Windows and the build is shared; and where both return, \<open>fPIC\<close> is gone exactly when
  the platform is Windows or the build is shared.
\<close>

lemma config_options_then_configure:
  assumes "fPIC (options c) = Some v"
  shows "fst (config_options c) = Inr ()
         \<and> (fst (configure (snd (config_options c))) = Inr ())
             = (\<not> (os (settings c) = ''Windows'' \<and> shared (options c)))
         \<and> fPIC (options (snd (configure (snd (config_options c)))))
             = (if os (settings c) = ''Windows'' \<or> shared (options c) then None else Some v)"
  using assms
  by (simp add: config_options_def configure_def del_options_fPIC_def
      rm_safe_compiler_cppstd_def rm_safe_compiler_libcxx_def)

text \<open>
  C5. The specification: with the declared defaults (\<open>shared=False\<close>, \<open>fPIC=True\<close>,
  \<open>with_ssl=False\<close>, \<open>with_shm=False\<close>, \<open>enable_security=False\<close>,
  \<open>enable_discovery=True\<close>), option configuration removes \<open>fPIC\<close> exactly when the
  platform is Windows or the build is shared. The recipe attempts this with two plain
  \<open>del\<close> statements. On Windows with \<open>shared=True\<close> line 76 has already deleted the
  option when line 81 deletes it again: \<open>configure\<close> ends in Conan's \<open>ConanException\<close>
  and never reaches lines 83 and 84, so option configuration does not complete. The
  other three combinations complete as the specification says: Windows static and Linux
  shared without \<open>fPIC\<close>, Linux static with it.
\<close>

theorem configure_windows_shared_at_input:
  "default_options
     = \<lparr>shared = False, fPIC = Some True, with_ssl = False, with_shm = False,
        enable_security = False, enable_discovery = True\<rparr>
   \<and> config_options (new_conanfile (mk_settings ''Windows'' ''msvc'' ''193'' (Some ''17''))
                        (default_options\<lparr>shared := True\<rparr>))
       = (Inr (), new_conanfile (mk_settings ''Windows'' ''msvc'' ''193'' (Some ''17''))
                    (default_options\<lparr>shared := True, fPIC := None\<rparr>))
   \<and> configure (new_conanfile (mk_settings ''Windows'' ''msvc'' ''193'' (Some ''17''))
                    (default_options\<lparr>shared := True, fPIC := None\<rparr>))
       = (Inl (ConanException ''option fPIC does not exist''),
          new_conanfile (mk_settings ''Windows'' ''msvc'' ''193'' (Some ''17''))
            (default_options\<lparr>shared := True, fPIC := None\<rparr>))
   \<and> fst (configure (snd (config_options
            (new_conanfile (mk_settings ''Windows'' ''msvc'' ''193'' (Some ''17''))
               default_options)))) = Inr ()
   \<and> fPIC (options (snd (configure (snd (config_options
            (new_conanfile (mk_settings ''Windows'' ''msvc'' ''193'' (Some ''17''))
               default_options)))))) = None
   \<and> fst (configure (snd (config_options
            (new_conanfile (mk_settings ''Linux'' ''gcc'' ''11'' (Some ''17''))
               (default_options\<lparr>shared := True\<rparr>))))) = Inr ()
   \<and> fPIC (options (snd (configure (snd (config_options
            (new_conanfile (mk_settings ''Linux'' ''gcc'' ''11'' (Some ''17''))
               (default_options\<lparr>shared := True\<rparr>))))))) = None
   \<and> fst (configure (snd (config_options
            (new_conanfile (mk_settings ''Linux'' ''gcc'' ''11'' (Some ''17''))
               default_options)))) = Inr ()
   \<and> fPIC (options (snd (configure (snd (config_options
            (new_conanfile (mk_settings ''Linux'' ''gcc'' ''11'' (Some ''17''))
               default_options)))))) = Some True"
  by (simp add: default_options_def new_conanfile_def mk_settings_def config_options_def
      configure_def del_options_fPIC_def rm_safe_compiler_cppstd_def
      rm_safe_compiler_libcxx_def)

text \<open>
  The same for every Windows recipe object with a shared build: line 81 deletes an option
  that line 76 has already deleted, and \<open>configure\<close> ends in Conan's \<open>ConanException\<close>.
\<close>

lemma configure_windows_shared:
  assumes "fPIC (options c) = Some v" and "os (settings c) = ''Windows''"
    and "shared (options c)"
  shows "fst (configure (snd (config_options c)))
           = Inl (ConanException ''option fPIC does not exist'')"
  using assms
  by (simp add: config_options_def configure_def del_options_fPIC_def)

subsection \<open>\<open>requirements\<close>\<close>

text \<open>
  C6. \<open>requirements\<close> appends the pinned shared-memory reference \<open>iceoryx/2.0.5\<close> once
  iff \<open>with_shm\<close> (not at all otherwise), then the TLS reference with its version range
  \<open>openssl/[>=1.1 <4]\<close> iff \<open>with_ssl\<close>; so the shared-memory entry, when present,
  precedes the TLS entry, when present.
\<close>

theorem requirements_declares_in_order:
  "fst (requirements c) = Inr ()
   \<and> declared_requires (snd (requirements c))
       = declared_requires c
         @ (if with_shm (options c) then [''iceoryx/2.0.5''] else [])
         @ (if with_ssl (options c) then [''openssl/[>=1.1 <4]''] else [])
   \<and> count_list (drop (length (declared_requires c)) (declared_requires (snd (requirements c))))
         ''iceoryx/2.0.5''
       = (if with_shm (options c) then 1 else 0)
   \<and> (''openssl/[>=1.1 <4]''
         \<in> set (drop (length (declared_requires c)) (declared_requires (snd (requirements c)))))
       = with_ssl (options c)"
  by (simp add: requirements_def Let_def)

subsection \<open>\<open>generate\<close>\<close>

text \<open>
  C4. The specification: \<open>generate\<close> forwards each option to its build variable, fixes
  \<open>BUILD_IDLC_TESTING\<close>, \<open>BUILD_DDSPERF\<close> and \<open>ENABLE_LTO\<close> to false and sets
  \<open>BUILD_IDLC\<close> from the IDL-helper predicate. The recipe calls that predicate,
  \<open>self._has_idlc()\<close>, in its first assignment (line 122) but defines it nowhere: for
  every option set \<open>generate\<close> ends in \<open>AttributeError\<close> before any variable is set.
\<close>

theorem generate_raises_AttributeError:
  "\<not> has_attribute ''_has_idlc''
   \<and> generate c = Inl (AttributeError ''_has_idlc'')"
  by (simp add: generate_def call_has_idlc_def has_idlc_not_an_attribute)

subsection \<open>\<open>package\<close>\<close>

text \<open>
  C8. On every platform \<open>package\<close> returns, having (after the install and the licence
  copy) removed the \<open>share\<close> directory, the \<open>lib/pkgconfig\<close> directory and the
  \<open>*.cmake\<close> files of \<open>lib/cmake/CycloneDDS\<close>; the four glob removals in \<open>bin\<close>
  (\<open>*.pdb\<close>, \<open>concrt*.dll\<close>, \<open>msvcp*.dll\<close>, \<open>vcruntime*.dll\<close>) are among the
  calls it makes iff the platform is Windows.
\<close>

theorem package_cleanup:
  "fst (package c) = Inr ()
   \<and> calls (snd (package c))
       = calls c
         @ [CMakeInstall,
            Copy ''LICENSE'' (source_folder c) (package_folder c @ [''licenses'']),
            Rmdir (package_folder c @ [''share'']),
            Rmdir (package_folder c @ [''lib'', ''pkgconfig'']),
            Rm ''*.cmake'' (package_folder c @ [''lib'', ''cmake'', ''CycloneDDS''])]
         @ (if os (settings c) = ''Windows''
            then [Rm ''*.pdb'' (package_folder c @ [''bin'']),
                  Rm ''concrt*.dll'' (package_folder c @ [''bin'']),
                  Rm ''msvcp*.dll'' (package_folder c @ [''bin'']),
                  Rm ''vcruntime*.dll'' (package_folder c @ [''bin''])]
            else [])
   \<and> (Rm ''*.pdb'' (package_folder c @ [''bin''])
         \<in> set (drop (length (calls c)) (calls (snd (package c)))))
       = (os (settings c) = ''Windows'')
   \<and> (Rm ''concrt*.dll'' (package_folder c @ [''bin''])
         \<in> set (drop (length (calls c)) (calls (snd (package c)))))
       = (os (settings c) = ''Windows'')
   \<and> (Rm ''msvcp*.dll'' (package_folder c @ [''bin''])
         \<in> set (drop (length (calls c)) (calls (snd (package c)))))
       = (os (settings c) = ''Windows'')
   \<and> (Rm ''vcruntime*.dll'' (package_folder c @ [''bin''])
         \<in> set (drop (length (calls c)) (calls (snd (package c)))))
       = (os (settings c) = ''Windows'')"
  by (simp add: package_def Let_def os_path_join_def)

subsection \<open>\<open>package_info\<close>\<close>

text \<open>
  C7. The specification: \<open>package_info\<close> yields the \<open>ddsc\<close> descriptor and, iff the
  IDL-helper flag is true (as it always is), the \<open>idl\<close> descriptor with two build-module
  paths and the \<open>bin\<close> directory prepended to \<open>PATH\<close>. The recipe reads the flag with
  \<open>self._has_idlc()\<close> (line 181), which is defined nowhere: for every recipe object
  \<open>package_info\<close> ends in \<open>AttributeError\<close>, no \<open>idl\<close> component is added and \<open>PATH\<close>
  is left alone.
\<close>

theorem package_info_raises_AttributeError:
  "fst (package_info c) = Inl (AttributeError ''_has_idlc'')
   \<and> components (cpp_info (snd (package_info c))) ''idl'' = components (cpp_info c) ''idl''
   \<and> buildenv_PATH (snd (package_info c)) = buildenv_PATH c
   \<and> runenv_PATH (snd (package_info c)) = runenv_PATH c"
  by (simp add: package_info_def call_has_idlc_def Let_def)

text \<open>What \<open>package_info\<close> has written for \<open>ddsc\<close> by the time it raises.\<close>

lemma package_info_ddsc:
  "\<exists>k. components (cpp_info (snd (package_info c))) ''ddsc'' = Some k
       \<and> libs k = [''ddsc'']
       \<and> requires k = requires (get_component (cpp_info c) ''ddsc'')
            @ (if with_shm (options c) then [''iceoryx::iceoryx_binding_c''] else [])
            @ (if with_ssl (options c) then [''openssl::openssl''] else [])
       \<and> system_libs k =
            (if os (settings c) = ''Linux'' \<or> os (settings c) = ''FreeBSD''
             then [''dl'', ''pthread'']
             else if os (settings c) = ''Windows''
             then [''ws2_32'', ''dbghelp'', ''bcrypt'', ''iphlpapi'']
             else system_libs (get_component (cpp_info c) ''ddsc''))"
  by (simp add: package_info_def call_has_idlc_def Let_def get_component_def)

end
